theory Spec2Isabelle
  imports Main
begin

section \<open>Python built-ins the code relies on\<close>

text \<open>
  The support subsystem of the repository formats integers, timestamps and lists of strings
  into text. The functions of this section model the Python behaviour the source uses:
  \<^verbatim>\<open>str(int)\<close>, \<^verbatim>\<open>sep.join(list)\<close>, \<^verbatim>\<open>str.capitalize()\<close> (on ASCII letters; other
  characters are left as they are), \<^verbatim>\<open>str(datetime)\<close> for a naive datetime, the slice
  \<^verbatim>\<open>xs[-5:]\<close> and \<^verbatim>\<open>dict.get(key, default)\<close>.
\<close>

definition digit_char :: "nat \<Rightarrow> char" where
  "digit_char d = ''0123456789'' ! (d mod 10)"

function str_nat :: "nat \<Rightarrow> string" where
  "str_nat n = (if n < 10 then [digit_char n] else str_nat (n div 10) @ [digit_char (n mod 10)])"
  by pat_completeness auto
termination
  by (relation "measure (\<lambda>n. n)") auto

declare str_nat.simps [simp del]

definition str_int :: "int \<Rightarrow> string" where
  "str_int i = (if i < 0 then CHR ''-'' # str_nat (nat (- i)) else str_nat (nat i))"

text \<open>An integer attribute that may still be \<^verbatim>\<open>None\<close> (a primary key before the insert).\<close>

definition str_opt_int :: "int option \<Rightarrow> string" where
  "str_opt_int v = (case v of None \<Rightarrow> ''None'' | Some i \<Rightarrow> str_int i)"

fun join :: "string \<Rightarrow> string list \<Rightarrow> string" where
  "join sep [] = []"
| "join sep [x] = x"
| "join sep (x # y # ys) = x @ sep @ join sep (y # ys)"

definition upper_char :: "char \<Rightarrow> char" where
  "upper_char c =
     (let n = (of_char c :: nat) in if 97 \<le> n \<and> n \<le> 122 then char_of (n - 32) else c)"

definition lower_char :: "char \<Rightarrow> char" where
  "lower_char c =
     (let n = (of_char c :: nat) in if 65 \<le> n \<and> n \<le> 90 then char_of (n + 32) else c)"

definition capitalize :: "string \<Rightarrow> string" where
  "capitalize s = (case s of [] \<Rightarrow> [] | c # cs \<Rightarrow> upper_char c # map lower_char cs)"

definition zfill :: "nat \<Rightarrow> string \<Rightarrow> string" where
  "zfill w s = replicate (w - length s) (CHR ''0'') @ s"

record datetime =
  year :: nat
  month :: nat
  day :: nat
  hour :: nat
  minute :: nat
  second :: nat
  microsecond :: nat

definition str_datetime :: "datetime \<Rightarrow> string" where
  "str_datetime d =
     zfill 4 (str_nat (year d)) @ ''-'' @ zfill 2 (str_nat (month d)) @ ''-'' @
     zfill 2 (str_nat (day d)) @ '' '' @ zfill 2 (str_nat (hour d)) @ '':'' @
     zfill 2 (str_nat (minute d)) @ '':'' @ zfill 2 (str_nat (second d)) @
     (if microsecond d = 0 then [] else ''.'' @ zfill 6 (str_nat (microsecond d)))"

definition last_five :: "'a list \<Rightarrow> 'a list" where
  "last_five xs = (if length xs \<le> 5 then xs else drop (length xs - 5) xs)"

definition dict_get :: "('k \<rightharpoonup> 'v) \<Rightarrow> 'k \<Rightarrow> 'v \<Rightarrow> 'v" where
  "dict_get d k dflt = (case d k of None \<Rightarrow> dflt | Some v \<Rightarrow> v)"

text \<open>A raised Python exception, carrying the text \<^verbatim>\<open>str(e)\<close>.\<close>

datatype exn = Exception string

fun str_exn :: "exn \<Rightarrow> string" where
  "str_exn (Exception m) = m"


section \<open>The data model (db/schema.py)\<close>

text \<open>
  The primary key is \<^verbatim>\<open>Field(default=None, primary_key=True)\<close>: it is \<^verbatim>\<open>None\<close> on an
  object that has not been inserted yet and an integer on every row read from the store.
\<close>

record Orders =
  id :: "int option"
  user_id :: int
  items :: "string list"
  status :: string
  created_at :: datetime
  updated_at :: datetime

record Tickets =
  id :: "int option"
  order_id :: int
  issue_description :: string
  status :: string
  created_at :: datetime
  updated_at :: datetime


section \<open>The record store behind a SQLModel session\<close>

text \<open>
  A session is the two tables the support subsystem reads and writes, together with a
  description of how the store misbehaves: for each operation, whether it raises. The
  code never looks at these fields; they stand for the environment, so that every
  \<^verbatim>\<open>except Exception\<close> branch of the source is a branch of the model.
\<close>

record session =
  orders_table :: "Orders list"
  tickets_table :: "Tickets list"
  get_orders_raises :: "int \<Rightarrow> exn option"
  get_tickets_raises :: "int \<Rightarrow> exn option"
  exec_raises :: "int \<Rightarrow> exn option"
  commit_raises :: "exn option"
  refresh_raises :: "exn option"

text \<open>\<^verbatim>\<open>session.get(Orders, pk)\<close>: the row with that primary key, \<^verbatim>\<open>None\<close>, or an exception.\<close>

definition session_get_Orders :: "session \<Rightarrow> int \<Rightarrow> exn + Orders option" where
  "session_get_Orders s pk =
     (case get_orders_raises s pk of
        Some e \<Rightarrow> Inl e
      | None \<Rightarrow> Inr (find (\<lambda>row. Orders.id row = Some pk) (orders_table s)))"

definition session_get_Tickets :: "session \<Rightarrow> int \<Rightarrow> exn + Tickets option" where
  "session_get_Tickets s pk =
     (case get_tickets_raises s pk of
        Some e \<Rightarrow> Inl e
      | None \<Rightarrow> Inr (find (\<lambda>row. Tickets.id row = Some pk) (tickets_table s)))"

text \<open>\<^verbatim>\<open>session.exec(select(Orders).where(Orders.user_id == u)).all()\<close>, in table order.\<close>

definition session_exec_orders_of_user :: "session \<Rightarrow> int \<Rightarrow> exn + Orders list" where
  "session_exec_orders_of_user s u =
     (case exec_raises s u of
        Some e \<Rightarrow> Inl e
      | None \<Rightarrow> Inr (filter (\<lambda>row. Orders.user_id row = u) (orders_table s)))"


section \<open>The chatbot (customer\_support\_bot/bot.py)\<close>

text \<open>
  The completion backend is a field of the bot: \<^verbatim>\<open>self.model.generate_content(prompt)\<close>
  returns a response or raises, and reading \<^verbatim>\<open>response.text\<close> may raise as well.
  Calls to the logger in this module write to the process log only and return nothing to
  the caller; the model of this module leaves them out.
\<close>

record response =
  text_of :: "exn + string"

record CustomerSupportBot =
  generate_content :: "string \<Rightarrow> exn + response"
  documents :: string

text \<open>
  \<^verbatim>\<open>self.system_prompt\<close> has the single replacement field \<^verbatim>\<open>{context}\<close> and no other
  brace, so \<^verbatim>\<open>self.system_prompt.format(context=context)\<close> is the text before the
  field, the context, and the text after it.
\<close>

definition system_prompt_before :: string where
  "system_prompt_before =
     ''You are a helpful customer support assistant for Genesis E-commerce.\<newline>'' @
     ''\<newline>'' @
     ''Your responsibilities:\<newline>'' @
     ''1. Answer questions about orders, shipping, returns, and refunds\<newline>'' @
     ''2. Provide information from our Terms and Conditions and Support Guide\<newline>'' @
     ''3. Help customers understand our policies and procedures\<newline>'' @
     ''4. Be polite, professional, and concise\<newline>'' @
     ''5. If you cannot find specific information in the provided context, be honest about it\<newline>'' @
     ''\<newline>'' @
     ''Context Information:\<newline>''"

definition system_prompt_after :: string where
  "system_prompt_after =
     ''\<newline>'' @
     ''\<newline>'' @
     ''Important Guidelines:\<newline>'' @
     ''- Always be courteous and empathetic\<newline>'' @
     ''- Provide accurate information based on the context\<newline>'' @
     ''- If discussing specific orders or tickets, use the provided database information\<newline>'' @
     ''- Cite relevant policy sections when applicable\<newline>'' @
     ''- Keep responses concise but complete\<newline>'' @
     ''- If you don't know something, suggest contacting human support\<newline>''"

definition system_prompt_format :: "string \<Rightarrow> string" where
  "system_prompt_format context = system_prompt_before @ context @ system_prompt_after"

text \<open>\<^verbatim>\<open>_get_order_context\<close> (bot.py, lines 95 to 123).\<close>

definition get_order_context :: "int \<Rightarrow> session \<Rightarrow> string" where
  "get_order_context oid s =
     (case session_get_Orders s oid of
        Inl e \<Rightarrow> ''Error retrieving order #'' @ str_int oid @ '' information.''
      | Inr None \<Rightarrow> ''Order #'' @ str_int oid @ '' not found in system.''
      | Inr (Some order) \<Rightarrow>
          ''\<newline>Order Information:\<newline>'' @
          ''- Order ID: '' @ str_opt_int (Orders.id order) @ ''\<newline>'' @
          ''- User ID: '' @ str_int (Orders.user_id order) @ ''\<newline>'' @
          ''- Items: '' @ join '', '' (Orders.items order) @ ''\<newline>'' @
          ''- Status: '' @ Orders.status order @ ''\<newline>'' @
          ''- Created: '' @ str_datetime (Orders.created_at order) @ ''\<newline>'' @
          ''- Last Updated: '' @ str_datetime (Orders.updated_at order) @ ''\<newline>'')"

text \<open>
  \<^verbatim>\<open>_get_ticket_context\<close> (bot.py, lines 125 to 158). Both lookups stand in one
  \<^verbatim>\<open>try\<close>: an exception of either gives the error line; an associated order that is
  \<^verbatim>\<open>None\<close> gives the order status \<^verbatim>\<open>"Unknown"\<close>.
\<close>

definition get_ticket_context :: "int \<Rightarrow> session \<Rightarrow> string" where
  "get_ticket_context tid s =
     (case session_get_Tickets s tid of
        Inl e \<Rightarrow> ''Error retrieving ticket #'' @ str_int tid @ '' information.''
      | Inr None \<Rightarrow> ''Ticket #'' @ str_int tid @ '' not found in system.''
      | Inr (Some ticket) \<Rightarrow>
          (case session_get_Orders s (Tickets.order_id ticket) of
             Inl e \<Rightarrow> ''Error retrieving ticket #'' @ str_int tid @ '' information.''
           | Inr order \<Rightarrow>
               (let order_status = (case order of Some ord \<Rightarrow> Orders.status ord | None \<Rightarrow> ''Unknown'')
                in ''\<newline>Support Ticket Information:\<newline>'' @
                   ''- Ticket ID: '' @ str_opt_int (Tickets.id ticket) @ ''\<newline>'' @
                   ''- Order ID: '' @ str_int (Tickets.order_id ticket) @ ''\<newline>'' @
                   ''- Order Status: '' @ order_status @ ''\<newline>'' @
                   ''- Issue: '' @ Tickets.issue_description ticket @ ''\<newline>'' @
                   ''- Ticket Status: '' @ Tickets.status ticket @ ''\<newline>'' @
                   ''- Created: '' @ str_datetime (Tickets.created_at ticket) @ ''\<newline>'' @
                   ''- Last Updated: '' @ str_datetime (Tickets.updated_at ticket) @ ''\<newline>'')))"

text \<open>\<^verbatim>\<open>_get_user_orders_context\<close> (bot.py, lines 160 to 185); the loop is a left fold.\<close>

definition user_order_line :: "Orders \<Rightarrow> string" where
  "user_order_line order =
     ''\<newline>- Order #'' @ str_opt_int (Orders.id order) @ '': '' @ Orders.status order @
     '' - '' @ str_nat (length (Orders.items order)) @ '' item(s) - Created: '' @
     str_datetime (Orders.created_at order)"

definition get_user_orders_context :: "int \<Rightarrow> session \<Rightarrow> string" where
  "get_user_orders_context uid s =
     (case session_exec_orders_of_user s uid of
        Inl e \<Rightarrow> ''Error retrieving orders for user #'' @ str_int uid @ ''.''
      | Inr orders \<Rightarrow>
          if orders = [] then ''No orders found for user #'' @ str_int uid @ ''.''
          else foldl (\<lambda>orders_info order. orders_info @ user_order_line order)
                 (''User #'' @ str_int uid @ '' has '' @ str_nat (length orders) @
                  '' order(s):\<newline>'')
                 orders)"

text \<open>
  \<^verbatim>\<open>chat\<close>, lines 212 to 222: the list \<^verbatim>\<open>context_parts\<close>. Each \<^verbatim>\<open>if order_id:\<close> tests
  the truthiness of an \<^verbatim>\<open>Optional[int]\<close>.
\<close>

definition context_parts ::
  "CustomerSupportBot \<Rightarrow> session \<Rightarrow> int option \<Rightarrow> int option \<Rightarrow> int option \<Rightarrow> string list" where
  "context_parts self s oid tid uid =
     (let parts0 = [documents self];
          parts1 = (case oid of
                      Some i \<Rightarrow> if i \<noteq> 0 then parts0 @ [get_order_context i s] else parts0
                    | None \<Rightarrow> parts0);
          parts2 = (case tid of
                      Some i \<Rightarrow> if i \<noteq> 0 then parts1 @ [get_ticket_context i s] else parts1
                    | None \<Rightarrow> parts1);
          parts3 = (case uid of
                      Some i \<Rightarrow> if i \<noteq> 0 then parts2 @ [get_user_orders_context i s] else parts2
                    | None \<Rightarrow> parts2)
      in parts3)"

text \<open>Line 224: \<^verbatim>\<open>context = "\n\n".join(context_parts)\<close>.\<close>

definition chat_context ::
  "CustomerSupportBot \<Rightarrow> session \<Rightarrow> int option \<Rightarrow> int option \<Rightarrow> int option \<Rightarrow> string" where
  "chat_context self s oid tid uid = join ''\<newline>\<newline>'' (context_parts self s oid tid uid)"

text \<open>
  Lines 230 to 235: a turn of the history is a \<^verbatim>\<open>dict\<close>; the loop appends one line per
  turn of \<^verbatim>\<open>conversation_history[-5:]\<close> to the prompt.
\<close>

type_synonym turn = "string \<rightharpoonup> string"

definition render_turn :: "turn \<Rightarrow> string" where
  "render_turn msg =
     (let role = dict_get msg ''role'' ''user'';
          content = dict_get msg ''content'' ''''
      in capitalize role @ '': '' @ content @ ''\<newline>'')"

definition add_history :: "string \<Rightarrow> turn list option \<Rightarrow> string" where
  "add_history full_prompt conversation_history =
     (case conversation_history of
        None \<Rightarrow> full_prompt
      | Some h \<Rightarrow>
          if h = [] then full_prompt
          else foldl (\<lambda>p msg. p @ render_turn msg)
                 (full_prompt @ ''\<newline>\<newline>Conversation History:\<newline>'')
                 (last_five h))"

text \<open>Lines 227 to 238: the prompt handed to the completion backend.\<close>

definition full_prompt ::
  "CustomerSupportBot \<Rightarrow> string \<Rightarrow> session \<Rightarrow> int option \<Rightarrow> int option \<Rightarrow> int option \<Rightarrow>
   turn list option \<Rightarrow> string" where
  "full_prompt self message s oid tid uid conversation_history =
     add_history (system_prompt_format (chat_context self s oid tid uid)) conversation_history @
     ''\<newline>\<newline>User: '' @ message @ ''\<newline>\<newline>Assistant:''"

definition apology :: string where
  "apology =
     ''I apologize, but I'm experiencing technical difficulties. Please try again or contact our support team directly at support@genesis-ecommerce.com''"

text \<open>
  \<^verbatim>\<open>chat\<close> (lines 187 to 251). The whole body stands in \<^verbatim>\<open>try ... except Exception\<close>;
  the steps that can raise are the call of the backend and the read of \<^verbatim>\<open>response.text\<close>.
\<close>

definition chat ::
  "CustomerSupportBot \<Rightarrow> string \<Rightarrow> session \<Rightarrow> int option \<Rightarrow> int option \<Rightarrow> int option \<Rightarrow>
   turn list option \<Rightarrow> string" where
  "chat self message s oid tid uid conversation_history =
     (case generate_content self (full_prompt self message s oid tid uid conversation_history) of
        Inl e \<Rightarrow> apology
      | Inr resp \<Rightarrow> (case text_of resp of Inl e \<Rightarrow> apology | Inr bot_response \<Rightarrow> bot_response))"


section \<open>The ticket endpoints (api/v1/support.py)\<close>

text \<open>
  An endpoint either returns its response or raises an \<^verbatim>\<open>HTTPException\<close>. Besides that
  outcome the model returns the session as the endpoint leaves it and the lines it wrote
  to the logger, in order.
\<close>

datatype HTTPException = HTTPException (status_code: int) (detail: string)

datatype level = INFO | WARNING | ERROR

record CreateTicketRequest =
  order_id :: int
  issue_description :: string

record UpdateTicketStatusRequest =
  status :: string

record TicketResponse =
  message :: string
  ticket :: Tickets

record 'a endpoint_result =
  outcome :: "HTTPException + 'a"
  session_after :: session
  logged :: "(level \<times> string) list"

text \<open>
  The clock of one request: \<open>now k\<close> is what the \<open>k\<close>-th call of \<^verbatim>\<open>datetime.now()\<close>
  made while serving the request returns (counted from 0).
\<close>

type_synonym clock = "nat \<Rightarrow> datetime"

text \<open>
  Writes. \<^verbatim>\<open>session.add(obj); session.commit()\<close> either raises and writes nothing, or
  writes the object: a new object is inserted under a fresh primary key (one more than the
  largest key of the table), a loaded object replaces the row with its primary key.
  \<^verbatim>\<open>session.refresh(obj)\<close> reads the object's row again. \<^verbatim>\<open>session.rollback()\<close> discards
  what has not been committed; nothing is written before a commit succeeds, so it leaves the
  tables as they are.
\<close>

definition next_ticket_id :: "Tickets list \<Rightarrow> int" where
  "next_ticket_id rows =
     1 + foldr (\<lambda>row m. max (case Tickets.id row of None \<Rightarrow> 0 | Some k \<Rightarrow> k) m) rows 0"

definition session_commit_new_ticket :: "session \<Rightarrow> Tickets \<Rightarrow> exn + session \<times> Tickets" where
  "session_commit_new_ticket s obj =
     (case commit_raises s of
        Some e \<Rightarrow> Inl e
      | None \<Rightarrow>
          (let row = obj\<lparr>Tickets.id := Some (next_ticket_id (tickets_table s))\<rparr>
           in Inr (s\<lparr>tickets_table := tickets_table s @ [row]\<rparr>, row)))"

definition session_commit_ticket :: "session \<Rightarrow> Tickets \<Rightarrow> exn + session" where
  "session_commit_ticket s obj =
     (case commit_raises s of
        Some e \<Rightarrow> Inl e
      | None \<Rightarrow>
          Inr (s\<lparr>tickets_table :=
                    map (\<lambda>row. if Tickets.id row = Tickets.id obj then obj else row)
                      (tickets_table s)\<rparr>))"

definition session_refresh_ticket :: "session \<Rightarrow> Tickets \<Rightarrow> exn + Tickets" where
  "session_refresh_ticket s obj =
     (case refresh_raises s of
        Some e \<Rightarrow> Inl e
      | None \<Rightarrow>
          (case find (\<lambda>row. Tickets.id row = Tickets.id obj) (tickets_table s) of
             None \<Rightarrow> Inl (Exception ''Could not refresh instance'')
           | Some row \<Rightarrow> Inr row))"

definition session_rollback :: "session \<Rightarrow> session" where
  "session_rollback s = s"

text \<open>
  \<^verbatim>\<open>create_ticket\<close> (support.py, lines 29 to 78). The constructor call of lines 53 to 59
  reads the clock twice: \<^verbatim>\<open>created_at=datetime.now(), updated_at=datetime.now()\<close>.
\<close>

definition create_ticket ::
  "CreateTicketRequest \<Rightarrow> session \<Rightarrow> clock \<Rightarrow> TicketResponse endpoint_result" where
  "create_ticket ticket_request s now =
     (let log0 = [(INFO, ''Creating ticket for order_id: '' @
                         str_int (CreateTicketRequest.order_id ticket_request))];
          failed = (\<lambda>e s'.
            \<lparr>outcome = Inl (HTTPException 500 ''Failed to create ticket''),
             session_after = session_rollback s',
             logged = log0 @ [(ERROR, ''Error creating ticket: '' @ str_exn e)]\<rparr>)
      in case session_get_Orders s (CreateTicketRequest.order_id ticket_request) of
           Inl e \<Rightarrow> failed e s
         | Inr None \<Rightarrow>
             \<lparr>outcome = Inl (HTTPException 404 ''Order not found''),
              session_after = s,
              logged = log0 @ [(WARNING, ''Order not found: '' @
                                str_int (CreateTicketRequest.order_id ticket_request))]\<rparr>
         | Inr (Some order) \<Rightarrow>
             (let new_ticket =
                    \<lparr>Tickets.id = None,
                     order_id = CreateTicketRequest.order_id ticket_request,
                     issue_description = CreateTicketRequest.issue_description ticket_request,
                     status = ''open'',
                     created_at = now 0,
                     updated_at = now 1\<rparr>
              in case session_commit_new_ticket s new_ticket of
                   Inl e \<Rightarrow> failed e s
                 | Inr (s1, inserted) \<Rightarrow>
                     (case session_refresh_ticket s1 inserted of
                        Inl e \<Rightarrow> failed e s1
                      | Inr refreshed \<Rightarrow>
                          \<lparr>outcome = Inr \<lparr>message = ''Ticket created successfully'',
                                           ticket = refreshed\<rparr>,
                           session_after = s1,
                           logged = log0 @
                             [(INFO, ''Created ticket '' @ str_opt_int (Tickets.id refreshed) @
                                     '' for order '' @
                                     str_int (CreateTicketRequest.order_id ticket_request))]\<rparr>)))"

text \<open>
  \<^verbatim>\<open>update_ticket_status\<close> (support.py, lines 192 to 247). The ticket is looked up
  first (404 when absent), then the requested status is checked against
  \<^verbatim>\<open>valid_statuses\<close> (400), then the loaded ticket is changed and committed.
  \<^verbatim>\<open>old_status\<close> is used by the log line of lines 234 to 236 and by nothing else.
\<close>

definition valid_statuses :: "string list" where
  "valid_statuses = [''open'', ''in_progress'', ''resolved'', ''closed'']"

definition update_ticket_status ::
  "int \<Rightarrow> UpdateTicketStatusRequest \<Rightarrow> session \<Rightarrow> clock \<Rightarrow> TicketResponse endpoint_result" where
  "update_ticket_status ticket_id status_request s now =
     (let log0 = [(INFO, ''Updating ticket '' @ str_int ticket_id @ '' status to: '' @
                         UpdateTicketStatusRequest.status status_request)];
          failed = (\<lambda>e s'.
            \<lparr>outcome = Inl (HTTPException 500 ''Failed to update ticket status''),
             session_after = session_rollback s',
             logged = log0 @ [(ERROR, ''Error updating ticket '' @ str_int ticket_id @ '': '' @
                                      str_exn e)]\<rparr>)
      in case session_get_Tickets s ticket_id of
           Inl e \<Rightarrow> failed e s
         | Inr None \<Rightarrow>
             \<lparr>outcome = Inl (HTTPException 404 ''Ticket not found''),
              session_after = s,
              logged = log0 @ [(WARNING, ''Ticket not found: '' @ str_int ticket_id)]\<rparr>
         | Inr (Some loaded) \<Rightarrow>
             if UpdateTicketStatusRequest.status status_request \<notin> set valid_statuses then
               \<lparr>outcome = Inl (HTTPException 400
                                (''Invalid status. Must be one of: '' @ join '', '' valid_statuses)),
                session_after = s,
                logged = log0 @ [(WARNING, ''Invalid status: '' @
                                  UpdateTicketStatusRequest.status status_request)]\<rparr>
             else
               (let old_status = Tickets.status loaded;
                    changed = loaded\<lparr>Tickets.status :=
                                        UpdateTicketStatusRequest.status status_request,
                                      Tickets.updated_at := now 0\<rparr>
                in case session_commit_ticket s changed of
                     Inl e \<Rightarrow> failed e s
                   | Inr s1 \<Rightarrow>
                       (case session_refresh_ticket s1 changed of
                          Inl e \<Rightarrow> failed e s1
                        | Inr refreshed \<Rightarrow>
                            \<lparr>outcome = Inr \<lparr>message = ''Ticket status updated successfully'',
                                             ticket = refreshed\<rparr>,
                             session_after = s1,
                             logged = log0 @
                               [(INFO, ''Updated ticket '' @ str_int ticket_id @
                                       '' status from '' @ old_status @ '' to '' @
                                       Tickets.status refreshed)]\<rparr>)))"


section \<open>Notions used to state the properties\<close>

text \<open>
  The section of the context that belongs to one optional id: nothing when the id is
  \<^verbatim>\<open>None\<close> or \<^verbatim>\<open>0\<close> (both are false in \<^verbatim>\<open>if order_id:\<close>), the rendered section
  otherwise.
\<close>

definition optional_section ::
  "(int \<Rightarrow> session \<Rightarrow> string) \<Rightarrow> int option \<Rightarrow> session \<Rightarrow> string list" where
  "optional_section render v s =
     (case v of None \<Rightarrow> [] | Some i \<Rightarrow> if i = 0 then [] else [render i s])"

text \<open>
  The history block as the specification describes it: nothing for an absent or empty
  history, otherwise the header followed by one rendered line per turn of the window.
\<close>

definition history_block :: "turn list option \<Rightarrow> string" where
  "history_block conversation_history =
     (case conversation_history of
        None \<Rightarrow> []
      | Some h \<Rightarrow>
          if h = [] then []
          else ''\<newline>\<newline>Conversation History:\<newline>'' @
               concat (map render_turn (last_five h)))"

text \<open>The same store, with another status in the row of one ticket.\<close>

definition with_prior_status :: "session \<Rightarrow> int \<Rightarrow> string \<Rightarrow> session" where
  "with_prior_status s tid prior =
     s\<lparr>tickets_table :=
         map (\<lambda>row. if Tickets.id row = Some tid then row\<lparr>Tickets.status := prior\<rparr> else row)
           (tickets_table s)\<rparr>"


section \<open>Example data\<close>

text \<open>
  A clock whose readings differ by one microsecond, a store with the single order 7 of
  user 3, and a bot whose documents are the text \<open>POLICY\<close>.
\<close>

definition example_time :: clock where
  "example_time k =
     \<lparr>year = 2024, month = 1, day = 5, hour = 9, minute = 3, second = 7,
      microsecond = 100 + k\<rparr>"

definition example_order :: Orders where
  "example_order =
     \<lparr>Orders.id = Some 7, user_id = 3, items = [''Laptop'', ''Mouse''], status = ''shipped'',
      created_at = example_time 0, updated_at = example_time 0\<rparr>"

definition example_ticket :: "int \<Rightarrow> int \<Rightarrow> string \<Rightarrow> Tickets" where
  "example_ticket k ord st =
     \<lparr>Tickets.id = Some k, order_id = ord, issue_description = ''item broken'', status = st,
      created_at = example_time 0, updated_at = example_time 0\<rparr>"

definition example_session :: "Tickets list \<Rightarrow> session" where
  "example_session rows =
     \<lparr>orders_table = [example_order], tickets_table = rows,
      get_orders_raises = (\<lambda>pk. None), get_tickets_raises = (\<lambda>pk. None),
      exec_raises = (\<lambda>u. None), commit_raises = None, refresh_raises = None\<rparr>"

definition broken_session :: session where
  "broken_session =
     (example_session [])\<lparr>get_orders_raises := (\<lambda>pk. Some (Exception ''connection lost''))\<rparr>"

definition open_ticket_session :: session where
  "open_ticket_session = example_session [example_ticket 1 7 ''open'']"

text \<open>A store whose ticket lookups and order scans raise, and a store with ticket 1
  whose order lookups raise.\<close>

definition unreachable_tickets_session :: session where
  "unreachable_tickets_session =
     (example_session [])\<lparr>get_tickets_raises := (\<lambda>pk. Some (Exception ''connection lost'')),
                           exec_raises := (\<lambda>u. Some (Exception ''connection lost''))\<rparr>"

definition unreachable_orders_session :: session where
  "unreachable_orders_session =
     open_ticket_session\<lparr>get_orders_raises := (\<lambda>pk. Some (Exception ''connection lost''))\<rparr>"

definition resolved_ticket_session :: session where
  "resolved_ticket_session = example_session [example_ticket 1 7 ''resolved'']"

definition dangling_ticket_session :: "int \<Rightarrow> session" where
  "dangling_ticket_session k = example_session [example_ticket k 99 ''open'']"

definition example_bot :: "(string \<Rightarrow> exn + response) \<Rightarrow> CustomerSupportBot" where
  "example_bot backend = \<lparr>generate_content = backend, documents = ''POLICY''\<rparr>"

definition example_turn :: "string \<Rightarrow> string \<Rightarrow> turn" where
  "example_turn r c = [''role'' \<mapsto> r, ''content'' \<mapsto> c]"

definition eight_turns :: "turn list" where
  "eight_turns =
     [example_turn ''user'' ''t1'', example_turn ''assistant'' ''t2'',
      example_turn ''user'' ''t3'', example_turn ''assistant'' ''t4'',
      example_turn ''USER'' ''t5'', example_turn ''assistant'' ''t6'',
      example_turn ''user'' ''t7'', example_turn ''aSSISTANT'' '''',
      [''content'' \<mapsto> ''t9'']]"


section \<open>Facts about the built-ins and the store\<close>

lemma join_Cons: "join sep (x # xs) = x @ concat (map (\<lambda>y. sep @ y) xs)"
  by (induction xs arbitrary: x) auto

lemma foldl_append_concat: "foldl (\<lambda>p m. p @ f m) init xs = init @ concat (map f xs)"
  by (induction xs arbitrary: init) auto

lemma length_last_five: "length (last_five xs) = min 5 (length xs)"
  by (auto simp: last_five_def)

lemma last_five_drop: "last_five xs = drop (length xs - min 5 (length xs)) xs"
  by (auto simp: last_five_def min_def)

lemma find_Some_holds: "find P xs = Some x \<Longrightarrow> P x"
  by (induction xs) (auto split: if_splits)

lemma find_append_None: "find P xs = None \<Longrightarrow> find P (xs @ ys) = find P ys"
  by (induction xs) (auto split: if_splits)

lemma session_get_Tickets_id:
  "session_get_Tickets s i = Inr (Some t) \<Longrightarrow> Tickets.id t = Some i"
  by (auto simp: session_get_Tickets_def split: option.splits dest: find_Some_holds)

lemma find_replaced_row:
  "find (\<lambda>row. Tickets.id row = Some k) rows = Some t \<Longrightarrow> Tickets.id obj = Some k \<Longrightarrow>
   find (\<lambda>row. Tickets.id row = Some k)
     (map (\<lambda>row. if Tickets.id row = Tickets.id obj then obj else row) rows) = Some obj"
  by (induction rows) (auto split: if_splits)

lemma find_restatused_row:
  "find (\<lambda>row. Tickets.id row = Some k)
     (map (\<lambda>row. if Tickets.id row = Some k then row\<lparr>Tickets.status := prior\<rparr> else row) rows) =
   map_option (\<lambda>row. row\<lparr>Tickets.status := prior\<rparr>)
     (find (\<lambda>row. Tickets.id row = Some k) rows)"
  by (induction rows) auto

lemma session_get_Tickets_with_prior_status:
  "session_get_Tickets s tid = Inr (Some loaded) \<Longrightarrow>
   session_get_Tickets (with_prior_status s tid prior) tid =
     Inr (Some (loaded\<lparr>Tickets.status := prior\<rparr>))"
  by (auto simp: session_get_Tickets_def with_prior_status_def find_restatused_row
      split: option.splits)

text \<open>A fresh primary key is larger than every key of the table, so the inserted row is
  the one a refresh finds.\<close>

lemma key_below_next_ticket_id:
  "row \<in> set rows \<Longrightarrow> Tickets.id row = Some k \<Longrightarrow> k < next_ticket_id rows"
  by (induction rows) (auto simp: next_ticket_id_def)

lemma find_fresh_row:
  assumes "Tickets.id row = Some (next_ticket_id rows)"
  shows "find (\<lambda>r. Tickets.id r = Tickets.id row) (rows @ [row]) = Some row"
proof -
  have "find (\<lambda>r. Tickets.id r = Some (next_ticket_id rows)) rows = None"
    using key_below_next_ticket_id [of _ rows "next_ticket_id rows"]
    by (fastforce simp: find_None_iff)
  then show ?thesis
    using assms by (simp add: find_append_None)
qed

lemma set_valid_statuses:
  "set valid_statuses = {''open'', ''in_progress'', ''resolved'', ''closed''}"
  by (simp add: valid_statuses_def)


section \<open>The context sections\<close>

lemma context_parts_sections:
  "context_parts self s oid tid uid =
     documents self # (optional_section get_order_context oid s @
       optional_section get_ticket_context tid s @
       optional_section get_user_orders_context uid s)"
  by (simp add: context_parts_def optional_section_def Let_def split: option.splits)

lemma add_history_block: "add_history p h = p @ history_block h"
  by (simp add: add_history_def history_block_def foldl_append_concat split: option.splits)

text \<open>What \<^verbatim>\<open>_get_order_context\<close> returns for an absent order and for a failing lookup,
  whatever the id.\<close>

lemma get_order_context_absent:
  "session_get_Orders s i = Inr None \<Longrightarrow>
   get_order_context i s = ''Order #'' @ str_int i @ '' not found in system.''"
  by (simp add: get_order_context_def)

lemma get_order_context_failure:
  "session_get_Orders s i = Inl e \<Longrightarrow>
   get_order_context i s = ''Error retrieving order #'' @ str_int i @ '' information.''"
  by (simp add: get_order_context_def)

text \<open>What \<^verbatim>\<open>_get_ticket_context\<close> and \<^verbatim>\<open>_get_user_orders_context\<close> return
  when one of their lookups raises, whatever the id.\<close>

lemma get_ticket_context_failure:
  "session_get_Tickets s j = Inl e \<or>
   (session_get_Tickets s j = Inr (Some t) \<and>
    session_get_Orders s (Tickets.order_id t) = Inl e) \<Longrightarrow>
   get_ticket_context j s = ''Error retrieving ticket #'' @ str_int j @ '' information.''"
  by (auto simp: get_ticket_context_def)

lemma get_user_orders_context_failure:
  "session_exec_orders_of_user s k = Inl e \<Longrightarrow>
   get_user_orders_context k s = ''Error retrieving orders for user #'' @ str_int k @ ''.''"
  by (simp add: get_user_orders_context_def)

text \<open>What \<^verbatim>\<open>_get_ticket_context\<close> returns for a ticket whose order is absent, whatever
  the id.\<close>

lemma get_ticket_context_unknown:
  "session_get_Tickets s i = Inr (Some t) \<Longrightarrow>
   session_get_Orders s (Tickets.order_id t) = Inr None \<Longrightarrow>
   get_ticket_context i s =
     ''\<newline>Support Ticket Information:\<newline>'' @
     ''- Ticket ID: '' @ str_opt_int (Tickets.id t) @ ''\<newline>'' @
     ''- Order ID: '' @ str_int (Tickets.order_id t) @ ''\<newline>'' @
     ''- Order Status: Unknown\<newline>'' @
     ''- Issue: '' @ Tickets.issue_description t @ ''\<newline>'' @
     ''- Ticket Status: '' @ Tickets.status t @ ''\<newline>'' @
     ''- Created: '' @ str_datetime (Tickets.created_at t) @ ''\<newline>'' @
     ''- Last Updated: '' @ str_datetime (Tickets.updated_at t) @ ''\<newline>''"
  by (simp add: get_ticket_context_def)

text \<open>
  Claim C6. For every combination of ids the context is the static knowledge section
  first, followed in this order by the order section, the ticket section and the
  user-orders section, each of them present only for an id that was given (and is not
  0), every later section preceded by a blank line; with no id the context is the static
  knowledge section alone.
\<close>

theorem chat_context_layout:
  "context_parts self s oid tid uid =
     documents self # (optional_section get_order_context oid s @
       optional_section get_ticket_context tid s @
       optional_section get_user_orders_context uid s) \<and>
   chat_context self s oid tid uid =
     documents self @ concat (map (\<lambda>sec. ''\<newline>\<newline>'' @ sec)
       (optional_section get_order_context oid s @
        optional_section get_ticket_context tid s @
        optional_section get_user_orders_context uid s)) \<and>
   chat_context self s None None None = documents self"
  by (simp add: chat_context_def context_parts_sections join_Cons optional_section_def)

text \<open>
  Claim C10. An id given as 0 is treated as an id that was not given: the list of
  sections, the context and the answer of \<^verbatim>\<open>chat\<close> are those of the call without the
  id, and with all three ids 0 the only section is the static one, whatever the store holds
  or raises (no lookup result enters the context, so no not-found line either).
\<close>

theorem zero_id_not_supplied:
  "context_parts self s (Some 0) tid uid = context_parts self s None tid uid \<and>
   context_parts self s oid (Some 0) uid = context_parts self s oid None uid \<and>
   context_parts self s oid tid (Some 0) = context_parts self s oid tid None \<and>
   chat_context self s (Some 0) tid uid = chat_context self s None tid uid \<and>
   chat_context self s oid (Some 0) uid = chat_context self s oid None uid \<and>
   chat_context self s oid tid (Some 0) = chat_context self s oid tid None \<and>
   chat self user_message s (Some 0) tid uid h = chat self user_message s None tid uid h \<and>
   chat self user_message s oid (Some 0) uid h = chat self user_message s oid None uid h \<and>
   chat self user_message s oid tid (Some 0) h = chat self user_message s oid tid None h \<and>
   context_parts self s (Some 0) (Some 0) (Some 0) = [documents self]"
  by (simp add: chat_def full_prompt_def chat_context_def context_parts_def)

text \<open>
  Claim C4, as the code has it. For every order id other than 0 whose order is absent, the
  order lookup contributes exactly the line \<^verbatim>\<open>Order #<id> not found in system.\<close> as the
  second section. A lookup that raises becomes the error line of its own section and of no
  other: \<^verbatim>\<open>Error retrieving order #<id> information.\<close> for the order lookup,
  \<^verbatim>\<open>Error retrieving ticket #<id> information.\<close> for the ticket lookup (or the lookup of
  the ticket's order), \<^verbatim>\<open>Error retrieving orders for user #<id>.\<close> for the scan of the
  user's orders; the other sections are the ones assembled without that id.
\<close>

theorem order_sentinel_for_nonzero_id:
  assumes "i \<noteq> 0"
  shows "(session_get_Orders s i = Inr None \<longrightarrow>
            get_order_context i s = ''Order #'' @ str_int i @ '' not found in system.'' \<and>
            context_parts self s (Some i) tid uid =
              documents self # (''Order #'' @ str_int i @ '' not found in system.'') #
              (optional_section get_ticket_context tid s @
               optional_section get_user_orders_context uid s)) \<and>
         (session_get_Orders s i = Inl e \<longrightarrow>
            get_order_context i s = ''Error retrieving order #'' @ str_int i @ '' information.'' \<and>
            context_parts self s (Some i) tid uid =
              documents self # (''Error retrieving order #'' @ str_int i @ '' information.'') #
              (optional_section get_ticket_context tid s @
               optional_section get_user_orders_context uid s)) \<and>
         context_parts self s None tid uid =
           documents self # (optional_section get_ticket_context tid s @
                             optional_section get_user_orders_context uid s) \<and>
         (j \<noteq> 0 \<and>
          (session_get_Tickets s j = Inl e \<or>
           (session_get_Tickets s j = Inr (Some t) \<and>
            session_get_Orders s (Tickets.order_id t) = Inl e)) \<longrightarrow>
            get_ticket_context j s = ''Error retrieving ticket #'' @ str_int j @ '' information.'' \<and>
            context_parts self s oid (Some j) uid =
              documents self #
              (optional_section get_order_context oid s @
               [''Error retrieving ticket #'' @ str_int j @ '' information.''] @
               optional_section get_user_orders_context uid s)) \<and>
         (k \<noteq> 0 \<and> session_exec_orders_of_user s k = Inl e \<longrightarrow>
            get_user_orders_context k s =
              ''Error retrieving orders for user #'' @ str_int k @ ''.'' \<and>
            context_parts self s oid tid (Some k) =
              documents self #
              (optional_section get_order_context oid s @
               optional_section get_ticket_context tid s @
               [''Error retrieving orders for user #'' @ str_int k @ ''.'']))"
proof (intro conjI impI)
  show "get_order_context i s = ''Order #'' @ str_int i @ '' not found in system.''"
    if "session_get_Orders s i = Inr None"
    using that by (rule get_order_context_absent)
  show "context_parts self s (Some i) tid uid =
          documents self # (''Order #'' @ str_int i @ '' not found in system.'') #
          (optional_section get_ticket_context tid s @
           optional_section get_user_orders_context uid s)"
    if "session_get_Orders s i = Inr None"
    using assms get_order_context_absent [OF that]
    by (simp add: context_parts_sections optional_section_def)
  show "get_order_context i s = ''Error retrieving order #'' @ str_int i @ '' information.''"
    if "session_get_Orders s i = Inl e"
    using that by (rule get_order_context_failure)
  show "context_parts self s (Some i) tid uid =
          documents self # (''Error retrieving order #'' @ str_int i @ '' information.'') #
          (optional_section get_ticket_context tid s @
           optional_section get_user_orders_context uid s)"
    if "session_get_Orders s i = Inl e"
    using assms get_order_context_failure [OF that]
    by (simp add: context_parts_sections optional_section_def)
  show "context_parts self s None tid uid =
           documents self # (optional_section get_ticket_context tid s @
                             optional_section get_user_orders_context uid s)"
    by (simp add: context_parts_sections optional_section_def)
next
  assume h: "j \<noteq> 0 \<and>
          (session_get_Tickets s j = Inl e \<or>
           (session_get_Tickets s j = Inr (Some t) \<and>
            session_get_Orders s (Tickets.order_id t) = Inl e))"
  then have f: "get_ticket_context j s =
      ''Error retrieving ticket #'' @ str_int j @ '' information.''"
    by (intro get_ticket_context_failure) blast
  then show "get_ticket_context j s =
      ''Error retrieving ticket #'' @ str_int j @ '' information.''" .
  show "context_parts self s oid (Some j) uid =
          documents self #
          (optional_section get_order_context oid s @
           [''Error retrieving ticket #'' @ str_int j @ '' information.''] @
           optional_section get_user_orders_context uid s)"
    using h f by (simp add: context_parts_sections optional_section_def)
next
  assume h: "k \<noteq> 0 \<and> session_exec_orders_of_user s k = Inl e"
  then have f: "get_user_orders_context k s =
      ''Error retrieving orders for user #'' @ str_int k @ ''.''"
    by (intro get_user_orders_context_failure) blast
  then show "get_user_orders_context k s =
      ''Error retrieving orders for user #'' @ str_int k @ ''.''" .
  show "context_parts self s oid tid (Some k) =
          documents self #
          (optional_section get_order_context oid s @
           optional_section get_ticket_context tid s @
           [''Error retrieving orders for user #'' @ str_int k @ ''.''])"
    using h f by (simp add: context_parts_sections optional_section_def)
qed

text \<open>The theorem at order id 42, absent from the example store; at a store whose
  order lookup raises; at stores whose ticket lookup, lookup of the ticket's order and
  scan of the user's orders raise. The sections of the other ids are assembled in each
  case.\<close>

theorem order_sentinel_for_nonzero_id_witness:
  "(42::int) \<noteq> 0 \<and> session_get_Orders (example_session []) 42 = Inr None \<and>
   context_parts (example_bot (\<lambda>p. Inl (Exception ''timeout''))) (example_session [])
       (Some 42) None (Some 3) =
     [''POLICY'', ''Order #42 not found in system.'',
      ''User #3 has 1 order(s):\<newline>\<newline>- Order #7: shipped - 2 item(s) - Created: 2024-01-05 09:03:07.000100''] \<and>
   session_get_Orders broken_session 42 = Inl (Exception ''connection lost'') \<and>
   context_parts (example_bot (\<lambda>p. Inl (Exception ''timeout''))) broken_session
       (Some 42) None (Some 3) =
     [''POLICY'', ''Error retrieving order #42 information.'',
      ''User #3 has 1 order(s):\<newline>\<newline>- Order #7: shipped - 2 item(s) - Created: 2024-01-05 09:03:07.000100''] \<and>
   session_get_Tickets unreachable_tickets_session 5 = Inl (Exception ''connection lost'') \<and>
   context_parts (example_bot (\<lambda>p. Inl (Exception ''timeout''))) unreachable_tickets_session
       (Some 42) (Some 5) None =
     [''POLICY'', ''Order #42 not found in system.'',
      ''Error retrieving ticket #5 information.''] \<and>
   session_get_Tickets unreachable_orders_session 1 = Inr (Some (example_ticket 1 7 ''open'')) \<and>
   session_get_Orders unreachable_orders_session
     (Tickets.order_id (example_ticket 1 7 ''open'')) = Inl (Exception ''connection lost'') \<and>
   context_parts (example_bot (\<lambda>p. Inl (Exception ''timeout''))) unreachable_orders_session
       None (Some 1) (Some 3) =
     [''POLICY'', ''Error retrieving ticket #1 information.'',
      ''User #3 has 1 order(s):\<newline>\<newline>- Order #7: shipped - 2 item(s) - Created: 2024-01-05 09:03:07.000100''] \<and>
   session_exec_orders_of_user unreachable_tickets_session 3 = Inl (Exception ''connection lost'') \<and>
   context_parts (example_bot (\<lambda>p. Inl (Exception ''timeout''))) unreachable_tickets_session
       (Some 7) None (Some 3) =
     [''POLICY'',
      ''\<newline>Order Information:\<newline>- Order ID: 7\<newline>- User ID: 3\<newline>- Items: Laptop, Mouse\<newline>- Status: shipped\<newline>- Created: 2024-01-05 09:03:07.000100\<newline>- Last Updated: 2024-01-05 09:03:07.000100\<newline>'',
      ''Error retrieving orders for user #3.'']"
proof -
  let ?bot = "example_bot (\<lambda>p. Inl (Exception ''timeout''))"
  have nz: "(42::int) \<noteq> 0" by simp
  have a: "session_get_Orders (example_session []) 42 = Inr None"
    by (simp add: session_get_Orders_def example_session_def example_order_def)
  have b: "session_get_Orders broken_session 42 = Inl (Exception ''connection lost'')"
    by (simp add: session_get_Orders_def broken_session_def)
  have c: "session_get_Tickets unreachable_tickets_session 5 = Inl (Exception ''connection lost'')"
    by (simp add: session_get_Tickets_def unreachable_tickets_session_def)
  have d: "session_get_Tickets unreachable_orders_session 1 =
      Inr (Some (example_ticket 1 7 ''open'')) \<and>
      session_get_Orders unreachable_orders_session
        (Tickets.order_id (example_ticket 1 7 ''open'')) = Inl (Exception ''connection lost'')"
    by (simp add: session_get_Tickets_def session_get_Orders_def unreachable_orders_session_def
        open_ticket_session_def example_session_def example_ticket_def)
  have x: "session_exec_orders_of_user unreachable_tickets_session 3 =
      Inl (Exception ''connection lost'')"
    by (simp add: session_exec_orders_of_user_def unreachable_tickets_session_def)
  have v: "str_int 42 = ''42'' \<and> str_int 5 = ''5'' \<and> str_int 1 = ''1'' \<and> str_int 3 = ''3''"
    by code_simp
  have u: "optional_section get_user_orders_context (Some 3) (example_session []) =
     [''User #3 has 1 order(s):\<newline>\<newline>- Order #7: shipped - 2 item(s) - Created: 2024-01-05 09:03:07.000100'']"
    by code_simp
  have u': "optional_section get_user_orders_context (Some 3) broken_session =
     [''User #3 has 1 order(s):\<newline>\<newline>- Order #7: shipped - 2 item(s) - Created: 2024-01-05 09:03:07.000100'']"
    by code_simp
  have u'': "optional_section get_user_orders_context (Some 3) unreachable_orders_session =
     [''User #3 has 1 order(s):\<newline>\<newline>- Order #7: shipped - 2 item(s) - Created: 2024-01-05 09:03:07.000100'']"
    by code_simp
  have o42: "optional_section get_order_context (Some 42) unreachable_tickets_session =
     [''Order #42 not found in system.'']"
    by code_simp
  have o7: "optional_section get_order_context (Some 7) unreachable_tickets_session =
     [''\<newline>Order Information:\<newline>- Order ID: 7\<newline>- User ID: 3\<newline>- Items: Laptop, Mouse\<newline>- Status: shipped\<newline>- Created: 2024-01-05 09:03:07.000100\<newline>- Last Updated: 2024-01-05 09:03:07.000100\<newline>'']"
    by code_simp
  have n: "optional_section f None ss = []" for f ss
    by (simp add: optional_section_def)
  have docs: "documents ?bot = ''POLICY''" by (simp add: example_bot_def)
  let ?e = "Exception ''connection lost''"
  let ?t = "example_ticket 1 7 ''open''"
  have w1: "context_parts ?bot (example_session []) (Some 42) None (Some 3) =
     [''POLICY'', ''Order #42 not found in system.'',
      ''User #3 has 1 order(s):\<newline>\<newline>- Order #7: shipped - 2 item(s) - Created: 2024-01-05 09:03:07.000100'']"
    using a order_sentinel_for_nonzero_id [OF nz, where s = "example_session []" and self = ?bot
        and tid = None and uid = "Some 3" and e = ?e and j = 0 and t = ?t and oid = None
        and k = 0]
    by (simp add: v u n docs)
  have w2: "context_parts ?bot broken_session (Some 42) None (Some 3) =
     [''POLICY'', ''Error retrieving order #42 information.'',
      ''User #3 has 1 order(s):\<newline>\<newline>- Order #7: shipped - 2 item(s) - Created: 2024-01-05 09:03:07.000100'']"
    using b order_sentinel_for_nonzero_id [OF nz, where s = broken_session and self = ?bot
        and tid = None and uid = "Some 3" and e = ?e and j = 0 and t = ?t and oid = None
        and k = 0]
    by (simp add: v u' n docs)
  have w3: "context_parts ?bot unreachable_tickets_session (Some 42) (Some 5) None =
     [''POLICY'', ''Order #42 not found in system.'',
      ''Error retrieving ticket #5 information.'']"
    using c order_sentinel_for_nonzero_id [OF nz, where s = unreachable_tickets_session and self = ?bot
        and tid = None and uid = None and e = ?e and j = 5 and t = ?t and oid = "Some 42"
        and k = 0]
    by (simp add: v o42 n docs)
  have w4: "context_parts ?bot unreachable_orders_session None (Some 1) (Some 3) =
     [''POLICY'', ''Error retrieving ticket #1 information.'',
      ''User #3 has 1 order(s):\<newline>\<newline>- Order #7: shipped - 2 item(s) - Created: 2024-01-05 09:03:07.000100'']"
    using d order_sentinel_for_nonzero_id [OF nz, where s = unreachable_orders_session and self = ?bot
        and tid = None and uid = "Some 3" and e = ?e and j = 1 and t = ?t and oid = None
        and k = 0]
    by (simp add: v u'' n docs)
  have w5: "context_parts ?bot unreachable_tickets_session (Some 7) None (Some 3) =
     [''POLICY'',
      ''\<newline>Order Information:\<newline>- Order ID: 7\<newline>- User ID: 3\<newline>- Items: Laptop, Mouse\<newline>- Status: shipped\<newline>- Created: 2024-01-05 09:03:07.000100\<newline>- Last Updated: 2024-01-05 09:03:07.000100\<newline>'',
      ''Error retrieving orders for user #3.'']"
    using x order_sentinel_for_nonzero_id [OF nz, where s = unreachable_tickets_session and self = ?bot
        and tid = None and uid = None and e = ?e and j = 0 and t = ?t and oid = "Some 7"
        and k = 3]
    by (simp add: v o7 n docs)
  show ?thesis
    using nz a b c d x w1 w2 w3 w4 w5 by simp
qed

text \<open>With the order id 0 and no order 0 in the store, the context has no order section at
  all, although \<^verbatim>\<open>_get_order_context\<close> itself would return the not-found line.\<close>

theorem order_id_zero_counterexample:
  "session_get_Orders (example_session []) 0 = Inr None \<and>
   context_parts (example_bot (\<lambda>p. Inl (Exception ''timeout''))) (example_session [])
       (Some 0) None None = [''POLICY''] \<and>
   get_order_context 0 (example_session []) = ''Order #0 not found in system.''"
  by code_simp

text \<open>
  Claim C8, as the code has it. For every ticket id other than 0 that resolves to a ticket
  whose order is absent, the context has a ticket section, with the order status
  \<^verbatim>\<open>Unknown\<close>; the absent order does not turn the section into an error line.
\<close>

theorem ticket_section_unknown_order:
  assumes "i \<noteq> 0"
    and "session_get_Tickets s i = Inr (Some t)"
    and "session_get_Orders s (Tickets.order_id t) = Inr None"
  shows "context_parts self s oid (Some i) uid =
           documents self #
           (optional_section get_order_context oid s @
            [''\<newline>Support Ticket Information:\<newline>'' @
             ''- Ticket ID: '' @ str_int i @ ''\<newline>'' @
             ''- Order ID: '' @ str_int (Tickets.order_id t) @ ''\<newline>'' @
             ''- Order Status: Unknown\<newline>'' @
             ''- Issue: '' @ Tickets.issue_description t @ ''\<newline>'' @
             ''- Ticket Status: '' @ Tickets.status t @ ''\<newline>'' @
             ''- Created: '' @ str_datetime (Tickets.created_at t) @ ''\<newline>'' @
             ''- Last Updated: '' @ str_datetime (Tickets.updated_at t) @ ''\<newline>''] @
            optional_section get_user_orders_context uid s)"
proof -
  have "Tickets.id t = Some i"
    using assms(2) by (rule session_get_Tickets_id)
  then have "str_opt_int (Tickets.id t) = str_int i"
    by (simp add: str_opt_int_def)
  then show ?thesis
    using assms(1) get_ticket_context_unknown [OF assms(2) assms(3)]
    by (simp add: context_parts_sections optional_section_def)
qed

text \<open>The theorem at ticket 2, whose order 99 is not in the store.\<close>

theorem ticket_section_unknown_order_witness:
  "(2::int) \<noteq> 0 \<and>
   session_get_Tickets (dangling_ticket_session 2) 2 = Inr (Some (example_ticket 2 99 ''open'')) \<and>
   session_get_Orders (dangling_ticket_session 2)
     (Tickets.order_id (example_ticket 2 99 ''open'')) = Inr None \<and>
   context_parts (example_bot (\<lambda>p. Inl (Exception ''timeout''))) (dangling_ticket_session 2)
       None (Some 2) None =
     [''POLICY'',
      ''\<newline>Support Ticket Information:\<newline>- Ticket ID: 2\<newline>- Order ID: 99\<newline>- Order Status: Unknown\<newline>- Issue: item broken\<newline>- Ticket Status: open\<newline>- Created: 2024-01-05 09:03:07.000100\<newline>- Last Updated: 2024-01-05 09:03:07.000100\<newline>'']"
proof -
  have nz: "(2::int) \<noteq> 0" by simp
  have g: "session_get_Tickets (dangling_ticket_session 2) 2 =
      Inr (Some (example_ticket 2 99 ''open''))"
    by (simp add: session_get_Tickets_def dangling_ticket_session_def example_session_def
        example_ticket_def)
  have o: "session_get_Orders (dangling_ticket_session 2)
      (Tickets.order_id (example_ticket 2 99 ''open'')) = Inr None"
    by (simp add: session_get_Orders_def dangling_ticket_session_def example_session_def
        example_ticket_def example_order_def)
  have v: "str_int 2 = ''2'' \<and> str_int 99 = ''99'' \<and>
           str_datetime (example_time 0) = ''2024-01-05 09:03:07.000100''"
    by code_simp
  show ?thesis
    using nz g o
      ticket_section_unknown_order [OF nz g o,
        where self = "example_bot (\<lambda>p. Inl (Exception ''timeout''))"
        and oid = None and uid = None]
    by (simp add: v optional_section_def example_bot_def example_ticket_def)
qed

text \<open>With the ticket id 0, a ticket 0 in the store and its order absent, the context has
  no ticket section.\<close>

theorem ticket_id_zero_counterexample:
  "session_get_Tickets (dangling_ticket_session 0) 0 = Inr (Some (example_ticket 0 99 ''open'')) \<and>
   session_get_Orders (dangling_ticket_session 0)
     (Tickets.order_id (example_ticket 0 99 ''open'')) = Inr None \<and>
   context_parts (example_bot (\<lambda>p. Inl (Exception ''timeout''))) (dangling_ticket_session 0)
       None (Some 0) None = [''POLICY'']"
  by (simp add: session_get_Tickets_def session_get_Orders_def dangling_ticket_session_def
      example_session_def example_ticket_def example_order_def context_parts_def
      example_bot_def)


section \<open>The prompt\<close>

text \<open>
  Claim C7. The prompt is, in this order: the system instructions with the context in
  place of their one replacement field, the history block (present only for a non-empty
  history, and then opened by the header \<^verbatim>\<open>Conversation History:\<close>), the line
  \<^verbatim>\<open>User: <message>\<close>, and the cue \<^verbatim>\<open>Assistant:\<close>, with which the prompt ends.
\<close>

theorem full_prompt_layout:
  "full_prompt self user_message s oid tid uid h =
     system_prompt_before @ chat_context self s oid tid uid @ system_prompt_after @
     history_block h @ ''\<newline>\<newline>User: '' @ user_message @ ''\<newline>\<newline>Assistant:''"
  by (simp add: full_prompt_def add_history_block system_prompt_format_def)

text \<open>
  Claim C5. Of a history of \<open>n\<close> turns the last \<open>min 5 n\<close> are rendered, in their order,
  each as the capitalized role, a colon, the content and a line break; an absent or empty
  history adds nothing to the prompt, which then goes from the system instructions straight
  to the user line.
\<close>

theorem history_window:
  "add_history p (Some h) =
     (if h = [] then p
      else p @ ''\<newline>\<newline>Conversation History:\<newline>'' @
           concat (map (\<lambda>msg. capitalize (dict_get msg ''role'' ''user'') @ '': '' @
                                dict_get msg ''content'' '''' @ ''\<newline>'')
                       (drop (length h - min 5 (length h)) h))) \<and>
   length (drop (length h - min 5 (length h)) h) = min 5 (length h) \<and>
   add_history p None = p \<and>
   full_prompt self user_message s oid tid uid None =
     system_prompt_format (chat_context self s oid tid uid) @
     ''\<newline>\<newline>User: '' @ user_message @ ''\<newline>\<newline>Assistant:'' \<and>
   full_prompt self user_message s oid tid uid (Some []) =
     system_prompt_format (chat_context self s oid tid uid) @
     ''\<newline>\<newline>User: '' @ user_message @ ''\<newline>\<newline>Assistant:''"
proof -
  have r: "render_turn = (\<lambda>msg. capitalize (dict_get msg ''role'' ''user'') @ '': '' @
                                dict_get msg ''content'' '''' @ ''\<newline>'')"
    by (rule ext) (simp add: render_turn_def Let_def)
  have "add_history p (Some h) = p @ history_block (Some h)"
    by (rule add_history_block)
  then have a: "add_history p (Some h) =
     (if h = [] then p
      else p @ ''\<newline>\<newline>Conversation History:\<newline>'' @
           concat (map render_turn (drop (length h - min 5 (length h)) h)))"
    using last_five_drop [of h] by (simp add: history_block_def)
  have b: "length (drop (length h - min 5 (length h)) h) = min 5 (length h)"
    by simp
  have c: "add_history q None = q" for q
    by (simp add: add_history_def)
  have d: "add_history q (Some []) = q" for q
    by (simp add: add_history_def)
  show ?thesis
    using a b by (simp add: r full_prompt_def c d)
qed

text \<open>Eight turns (and a ninth without a role): the last five are rendered, in order.\<close>

theorem history_window_witness:
  "add_history ''P'' (Some eight_turns) =
     ''P\<newline>\<newline>Conversation History:\<newline>User: t5\<newline>Assistant: t6\<newline>User: t7\<newline>Assistant: \<newline>User: t9\<newline>'' \<and>
   add_history ''P'' (Some []) = ''P'' \<and> add_history ''P'' None = ''P''"
proof -
  have d: "drop (length eight_turns - min 5 (length eight_turns)) eight_turns =
     [example_turn ''USER'' ''t5'', example_turn ''assistant'' ''t6'',
      example_turn ''user'' ''t7'', example_turn ''aSSISTANT'' '''',
      [''content'' \<mapsto> ''t9'']]"
    by (simp add: eight_turns_def)
  have ne: "eight_turns \<noteq> []" by (simp add: eight_turns_def)
  have c: "capitalize ''USER'' = ''User'' \<and> capitalize ''user'' = ''User'' \<and>
           capitalize ''assistant'' = ''Assistant'' \<and> capitalize ''aSSISTANT'' = ''Assistant''"
    by code_simp
  show ?thesis
    using history_window [of "''P''" eight_turns] history_window [of "''P''" "[]"]
    by (simp add: d ne c example_turn_def dict_get_def)
qed


section \<open>Failure of the completion backend\<close>

text \<open>
  Claim C2. Whatever the message, the ids and the history: when the call of the
  completion backend raises (or the text of its response cannot be read), \<^verbatim>\<open>chat\<close>
  returns the fixed apology, which names the support address; \<^verbatim>\<open>chat\<close> is a total
  function into strings, so no exception reaches the caller.
\<close>

theorem chat_contains_backend_failure:
  assumes "generate_content self (full_prompt self user_message s oid tid uid h) = Inl e \<or>
           (generate_content self (full_prompt self user_message s oid tid uid h) = Inr resp \<and>
            text_of resp = Inl e)"
  shows "chat self user_message s oid tid uid h =
     ''I apologize, but I'm experiencing technical difficulties. Please try again or contact our support team directly at support@genesis-ecommerce.com''"
  using assms by (auto simp: chat_def apology_def)

text \<open>A backend that times out and a backend whose response has no readable text.\<close>

theorem chat_contains_backend_failure_witness:
  "generate_content (example_bot (\<lambda>p. Inl (Exception ''timeout'')))
     (full_prompt (example_bot (\<lambda>p. Inl (Exception ''timeout''))) ''Where is my order?''
        (example_session []) (Some 42) None (Some 3) (Some [example_turn ''user'' ''hi''])) =
     Inl (Exception ''timeout'') \<and>
   chat (example_bot (\<lambda>p. Inl (Exception ''timeout''))) ''Where is my order?''
        (example_session []) (Some 42) None (Some 3) (Some [example_turn ''user'' ''hi'']) =
     ''I apologize, but I'm experiencing technical difficulties. Please try again or contact our support team directly at support@genesis-ecommerce.com'' \<and>
   chat (example_bot (\<lambda>p. Inr \<lparr>text_of = Inl (Exception ''blocked'')\<rparr>)) ''Hello''
        broken_session None None None None =
     ''I apologize, but I'm experiencing technical difficulties. Please try again or contact our support team directly at support@genesis-ecommerce.com''"
proof -
  have f: "generate_content (example_bot (\<lambda>p. Inl (Exception ''timeout''))) q =
      Inl (Exception ''timeout'')" for q
    by (simp add: example_bot_def)
  have g: "generate_content (example_bot (\<lambda>p. Inr \<lparr>text_of = Inl (Exception ''blocked'')\<rparr>)) q =
      Inr \<lparr>text_of = Inl (Exception ''blocked'')\<rparr> \<and>
      text_of \<lparr>text_of = Inl (Exception ''blocked'')\<rparr> = Inl (Exception ''blocked'')" for q
    by (simp add: example_bot_def)
  show ?thesis
    using f
      chat_contains_backend_failure [OF disjI1, OF f]
      chat_contains_backend_failure [OF disjI2, OF g]
    by simp
qed


section \<open>Ticket status updates\<close>

lemma update_ticket_status_absent:
  "session_get_Tickets s tid = Inr None \<Longrightarrow>
   outcome (update_ticket_status tid req s now) = Inl (HTTPException 404 ''Ticket not found'') \<and>
   session_after (update_ticket_status tid req s now) = s"
  by (simp add: update_ticket_status_def Let_def)

lemma update_ticket_status_lookup_fails:
  "session_get_Tickets s tid = Inl e \<Longrightarrow>
   outcome (update_ticket_status tid req s now) =
     Inl (HTTPException 500 ''Failed to update ticket status'') \<and>
   session_after (update_ticket_status tid req s now) = s"
  by (simp add: update_ticket_status_def Let_def session_rollback_def)

lemma update_ticket_status_invalid:
  "session_get_Tickets s tid = Inr (Some t) \<Longrightarrow>
   UpdateTicketStatusRequest.status req \<notin> set valid_statuses \<Longrightarrow>
   outcome (update_ticket_status tid req s now) =
     Inl (HTTPException 400 (''Invalid status. Must be one of: '' @ join '', '' valid_statuses)) \<and>
   session_after (update_ticket_status tid req s now) = s"
  by (simp add: update_ticket_status_def Let_def)

text \<open>A successful update, read backwards: what must have held, and what was returned,
  written and logged.\<close>

lemma update_ticket_status_success:
  assumes "outcome (update_ticket_status tid req s now) = Inr r"
  shows "\<exists>loaded. session_get_Tickets s tid = Inr (Some loaded) \<and>
           UpdateTicketStatusRequest.status req \<in> set valid_statuses \<and> commit_raises s = None \<and>
           refresh_raises s = None \<and>
           r = \<lparr>message = ''Ticket status updated successfully'',
                ticket = loaded\<lparr>Tickets.status := UpdateTicketStatusRequest.status req,
                                 Tickets.updated_at := now 0\<rparr>\<rparr> \<and>
           session_after (update_ticket_status tid req s now) =
             s\<lparr>tickets_table :=
                  map (\<lambda>row. if Tickets.id row = Some tid
                              then loaded\<lparr>Tickets.status := UpdateTicketStatusRequest.status req,
                                           Tickets.updated_at := now 0\<rparr>
                              else row) (tickets_table s)\<rparr> \<and>
           logged (update_ticket_status tid req s now) =
             [(INFO, ''Updating ticket '' @ str_int tid @ '' status to: '' @
                     UpdateTicketStatusRequest.status req),
              (INFO, ''Updated ticket '' @ str_int tid @ '' status from '' @
                     Tickets.status loaded @ '' to '' @ UpdateTicketStatusRequest.status req)]"
proof (cases "session_get_Tickets s tid")
  case (Inl e)
  with assms show ?thesis by (simp add: update_ticket_status_def Let_def)
next
  case (Inr found)
  show ?thesis
  proof (cases found)
    case None
    with Inr assms show ?thesis by (simp add: update_ticket_status_def Let_def)
  next
    case (Some loaded)
    let ?changed = "loaded\<lparr>Tickets.status := UpdateTicketStatusRequest.status req,
                            Tickets.updated_at := now 0\<rparr>"
    have got: "session_get_Tickets s tid = Inr (Some loaded)" using Inr Some by simp
    have idl: "Tickets.id loaded = Some tid" using got by (rule session_get_Tickets_id)
    have fnd: "find (\<lambda>row. Tickets.id row = Some tid) (tickets_table s) = Some loaded"
      using got by (simp add: session_get_Tickets_def split: option.splits)
    have valid: "UpdateTicketStatusRequest.status req \<in> set valid_statuses"
      using assms got by (auto simp: update_ticket_status_def Let_def split: if_splits)
    have cr: "commit_raises s = None"
      using assms got valid
      by (auto simp: update_ticket_status_def Let_def session_commit_ticket_def
          split: option.splits)
    let ?s1 = "s\<lparr>tickets_table :=
                  map (\<lambda>row. if Tickets.id row = Some tid then ?changed else row)
                    (tickets_table s)\<rparr>"
    have commit: "session_commit_ticket s ?changed = Inr ?s1"
      using cr idl by (simp add: session_commit_ticket_def)
    have rr: "refresh_raises s = None"
      using assms got valid commit
      by (auto simp: update_ticket_status_def Let_def session_refresh_ticket_def
          split: option.splits)
    have "find (\<lambda>row. Tickets.id row = Some tid)
            (map (\<lambda>row. if Tickets.id row = Tickets.id ?changed then ?changed else row)
               (tickets_table s)) = Some ?changed"
      using fnd idl by (intro find_replaced_row) simp_all
    then have refresh: "session_refresh_ticket ?s1 ?changed = Inr ?changed"
      using rr idl by (simp add: session_refresh_ticket_def)
    show ?thesis
      using got valid cr rr commit refresh assms
      by (auto simp: update_ticket_status_def Let_def)
  qed
qed

text \<open>And forwards: a stored ticket, a legal status and a store that does not raise give
  the success response.\<close>

lemma update_ticket_status_runs:
  assumes got: "session_get_Tickets s tid = Inr (Some loaded)"
    and valid: "UpdateTicketStatusRequest.status req \<in> set valid_statuses"
    and cr: "commit_raises s = None" and rr: "refresh_raises s = None"
  shows "outcome (update_ticket_status tid req s now) =
     Inr \<lparr>message = ''Ticket status updated successfully'',
          ticket = loaded\<lparr>Tickets.status := UpdateTicketStatusRequest.status req,
                           Tickets.updated_at := now 0\<rparr>\<rparr>"
proof -
  let ?changed = "loaded\<lparr>Tickets.status := UpdateTicketStatusRequest.status req,
                          Tickets.updated_at := now 0\<rparr>"
  let ?s1 = "s\<lparr>tickets_table :=
                map (\<lambda>row. if Tickets.id row = Some tid then ?changed else row)
                  (tickets_table s)\<rparr>"
  have idl: "Tickets.id loaded = Some tid" using got by (rule session_get_Tickets_id)
  have fnd: "find (\<lambda>row. Tickets.id row = Some tid) (tickets_table s) = Some loaded"
    using got by (simp add: session_get_Tickets_def split: option.splits)
  have commit: "session_commit_ticket s ?changed = Inr ?s1"
    using cr idl by (simp add: session_commit_ticket_def)
  have "find (\<lambda>row. Tickets.id row = Some tid)
          (map (\<lambda>row. if Tickets.id row = Tickets.id ?changed then ?changed else row)
             (tickets_table s)) = Some ?changed"
    using fnd idl by (intro find_replaced_row) simp_all
  then have refresh: "session_refresh_ticket ?s1 ?changed = Inr ?changed"
    using rr idl by (simp add: session_refresh_ticket_def)
  show ?thesis
    using got valid commit refresh by (simp add: update_ticket_status_def Let_def)
qed

lemma update_persisted:
  assumes "outcome (update_ticket_status tid req s now) = Inr r"
  shows "session_get_Tickets (session_after (update_ticket_status tid req s now)) tid =
           Inr (Some (ticket r))"
proof -
  from update_ticket_status_success [OF assms] obtain loaded where
    got: "session_get_Tickets s tid = Inr (Some loaded)" and
    r: "r = \<lparr>message = ''Ticket status updated successfully'',
             ticket = loaded\<lparr>Tickets.status := UpdateTicketStatusRequest.status req,
                              Tickets.updated_at := now 0\<rparr>\<rparr>" and
    sa: "session_after (update_ticket_status tid req s now) =
             s\<lparr>tickets_table :=
                  map (\<lambda>row. if Tickets.id row = Some tid
                              then loaded\<lparr>Tickets.status := UpdateTicketStatusRequest.status req,
                                           Tickets.updated_at := now 0\<rparr>
                              else row) (tickets_table s)\<rparr>"
    by blast
  have idl: "Tickets.id loaded = Some tid" using got by (rule session_get_Tickets_id)
  have nr: "get_tickets_raises s tid = None"
    using got by (simp add: session_get_Tickets_def split: option.splits)
  have fnd: "find (\<lambda>row. Tickets.id row = Some tid) (tickets_table s) = Some loaded"
    using got by (simp add: session_get_Tickets_def split: option.splits)
  have tr: "ticket r = loaded\<lparr>Tickets.status := UpdateTicketStatusRequest.status req,
                                  Tickets.updated_at := now 0\<rparr>"
    by (simp add: r)
  have "find (\<lambda>row. Tickets.id row = Some tid)
          (map (\<lambda>row. if Tickets.id row =
                        Tickets.id (loaded\<lparr>Tickets.status := UpdateTicketStatusRequest.status req,
                                           Tickets.updated_at := now 0\<rparr>)
                      then loaded\<lparr>Tickets.status := UpdateTicketStatusRequest.status req,
                                   Tickets.updated_at := now 0\<rparr>
                      else row)
             (tickets_table s)) =
        Some (loaded\<lparr>Tickets.status := UpdateTicketStatusRequest.status req,
                           Tickets.updated_at := now 0\<rparr>)"
    using fnd idl by (intro find_replaced_row) simp_all
  then show ?thesis
    using idl by (simp add: session_get_Tickets_def sa nr tr)
qed

lemma open_ticket_update_closed:
  "outcome (update_ticket_status 1 \<lparr>status = ''closed''\<rparr> open_ticket_session example_time) =
     Inr \<lparr>message = ''Ticket status updated successfully'',
          ticket = \<lparr>Tickets.id = Some 1, order_id = 7, issue_description = ''item broken'',
                    status = ''closed'', created_at = example_time 0,
                    updated_at = example_time 0\<rparr>\<rparr>"
  by (simp add: update_ticket_status_def open_ticket_session_def example_session_def
      example_ticket_def session_get_Tickets_def valid_statuses_def session_commit_ticket_def
      session_refresh_ticket_def Let_def)

text \<open>
  Claim C1, as the code has it. A request with a status outside open, in\_progress,
  resolved, closed never succeeds and leaves the store as it was, whatever the ticket id;
  when the ticket is in the store, the failure is the 400 whose detail lists the four legal
  values (a ticket that is not in the store is reported first, as 404). After a successful
  update the status of the stored ticket is the requested one, one of the four.
\<close>

theorem status_update_validation:
  "(UpdateTicketStatusRequest.status req \<notin> {''open'', ''in_progress'', ''resolved'', ''closed''} \<longrightarrow>
      isl (outcome (update_ticket_status tid req s now)) \<and>
      session_after (update_ticket_status tid req s now) = s \<and>
      (session_get_Tickets s tid = Inr (Some t) \<longrightarrow>
         outcome (update_ticket_status tid req s now) =
           Inl (HTTPException 400
                  ''Invalid status. Must be one of: open, in_progress, resolved, closed''))) \<and>
   (outcome (update_ticket_status tid req s now) = Inr r \<longrightarrow>
      Tickets.status (ticket r) = UpdateTicketStatusRequest.status req \<and>
      Tickets.status (ticket r) \<in> {''open'', ''in_progress'', ''resolved'', ''closed''} \<and>
      session_get_Tickets (session_after (update_ticket_status tid req s now)) tid =
        Inr (Some (ticket r)))"
proof (intro conjI impI)
  assume bad: "UpdateTicketStatusRequest.status req \<notin>
    {''open'', ''in_progress'', ''resolved'', ''closed''}"
  then have bad': "UpdateTicketStatusRequest.status req \<notin> set valid_statuses"
    by (simp add: set_valid_statuses)
  show "isl (outcome (update_ticket_status tid req s now))"
  proof (cases "outcome (update_ticket_status tid req s now)")
    case (Inl err)
    then show ?thesis by simp
  next
    case (Inr r')
    from update_ticket_status_success [OF Inr] bad' show ?thesis by blast
  qed
  show "session_after (update_ticket_status tid req s now) = s"
  proof (cases "session_get_Tickets s tid")
    case (Inl e)
    then show ?thesis using update_ticket_status_lookup_fails by blast
  next
    case (Inr found)
    then show ?thesis
      using update_ticket_status_absent update_ticket_status_invalid bad'
      by (cases found) blast+
  qed
  show "outcome (update_ticket_status tid req s now) =
           Inl (HTTPException 400
                  ''Invalid status. Must be one of: open, in_progress, resolved, closed'')"
    if "session_get_Tickets s tid = Inr (Some t)"
    using update_ticket_status_invalid [OF that bad'] by (simp add: valid_statuses_def)
next
  assume ok: "outcome (update_ticket_status tid req s now) = Inr r"
  from update_ticket_status_success [OF ok]
  show "Tickets.status (ticket r) = UpdateTicketStatusRequest.status req"
    by auto
  from update_ticket_status_success [OF ok]
  show "Tickets.status (ticket r) \<in> {''open'', ''in_progress'', ''resolved'', ''closed''}"
    by (auto simp: set_valid_statuses)
  show "session_get_Tickets (session_after (update_ticket_status tid req s now)) tid =
        Inr (Some (ticket r))"
    using ok by (rule update_persisted)
qed

text \<open>Ticket 1 of the example store: the status \<open>bogus\<close> is refused with the 400 and the
  store stays as it was; the status \<open>closed\<close> is written.\<close>

theorem status_update_validation_witness:
  "UpdateTicketStatusRequest.status \<lparr>status = ''bogus''\<rparr> \<notin>
     {''open'', ''in_progress'', ''resolved'', ''closed''} \<and>
   session_get_Tickets open_ticket_session 1 = Inr (Some (example_ticket 1 7 ''open'')) \<and>
   outcome (update_ticket_status 1 \<lparr>status = ''bogus''\<rparr> open_ticket_session example_time) =
     Inl (HTTPException 400
            ''Invalid status. Must be one of: open, in_progress, resolved, closed'') \<and>
   session_after (update_ticket_status 1 \<lparr>status = ''bogus''\<rparr> open_ticket_session example_time) =
     open_ticket_session \<and>
   outcome (update_ticket_status 1 \<lparr>status = ''closed''\<rparr> open_ticket_session example_time) =
     Inr \<lparr>message = ''Ticket status updated successfully'',
          ticket = \<lparr>Tickets.id = Some 1, order_id = 7, issue_description = ''item broken'',
                    status = ''closed'', created_at = example_time 0,
                    updated_at = example_time 0\<rparr>\<rparr> \<and>
   session_get_Tickets
     (session_after
        (update_ticket_status 1 \<lparr>status = ''closed''\<rparr> open_ticket_session example_time)) 1 =
     Inr (Some \<lparr>Tickets.id = Some 1, order_id = 7, issue_description = ''item broken'',
                status = ''closed'', created_at = example_time 0,
                updated_at = example_time 0\<rparr>)"
proof -
  have b: "UpdateTicketStatusRequest.status \<lparr>status = ''bogus''\<rparr> \<notin>
     {''open'', ''in_progress'', ''resolved'', ''closed''}" by simp
  have g: "session_get_Tickets open_ticket_session 1 = Inr (Some (example_ticket 1 7 ''open''))"
    by (simp add: session_get_Tickets_def open_ticket_session_def example_session_def
        example_ticket_def)
  show ?thesis
    using b g open_ticket_update_closed
      status_update_validation [where req = "\<lparr>status = ''bogus''\<rparr>" and tid = 1
        and s = open_ticket_session and now = example_time and t = "example_ticket 1 7 ''open''"]
      status_update_validation [where req = "\<lparr>status = ''closed''\<rparr>" and tid = 1
        and s = open_ticket_session and now = example_time]
    by simp
qed

text \<open>The status \<open>bogus\<close> for ticket 2, which is not in the store: the failure is the 404
  of the missing ticket, not the one that lists the legal statuses.\<close>

theorem missing_ticket_invalid_status_counterexample:
  "UpdateTicketStatusRequest.status \<lparr>status = ''bogus''\<rparr> \<notin>
     {''open'', ''in_progress'', ''resolved'', ''closed''} \<and>
   outcome (update_ticket_status 2 \<lparr>status = ''bogus''\<rparr> open_ticket_session example_time) =
     Inl (HTTPException 404 ''Ticket not found'')"
  by (simp add: update_ticket_status_def session_get_Tickets_def open_ticket_session_def
      example_session_def example_ticket_def Let_def)

text \<open>
  Claim C9, as the code has it. After a successful update the response is the fixed
  message and the ticket as it is stored now; the status the ticket had before is not part
  of it: the same request on a store that differs only in that status has the same
  response. The earlier status is written to the log line
  \<^verbatim>\<open>Updated ticket <id> status from <old> to <new>\<close> and nowhere else.
\<close>

theorem update_result_hides_prior_status:
  assumes "outcome (update_ticket_status tid req s now) = Inr r"
  shows "outcome (update_ticket_status tid req (with_prior_status s tid prior) now) = Inr r \<and>
         (\<exists>loaded. session_get_Tickets s tid = Inr (Some loaded) \<and>
            r = \<lparr>message = ''Ticket status updated successfully'',
                 ticket = loaded\<lparr>Tickets.status := UpdateTicketStatusRequest.status req,
                                  Tickets.updated_at := now 0\<rparr>\<rparr> \<and>
            logged (update_ticket_status tid req s now) =
              [(INFO, ''Updating ticket '' @ str_int tid @ '' status to: '' @
                      UpdateTicketStatusRequest.status req),
               (INFO, ''Updated ticket '' @ str_int tid @ '' status from '' @
                      Tickets.status loaded @ '' to '' @ UpdateTicketStatusRequest.status req)])"
proof -
  from update_ticket_status_success [OF assms] obtain loaded where
    got: "session_get_Tickets s tid = Inr (Some loaded)" and
    valid: "UpdateTicketStatusRequest.status req \<in> set valid_statuses" and
    cr: "commit_raises s = None" and rr: "refresh_raises s = None" and
    r: "r = \<lparr>message = ''Ticket status updated successfully'',
             ticket = loaded\<lparr>Tickets.status := UpdateTicketStatusRequest.status req,
                              Tickets.updated_at := now 0\<rparr>\<rparr>" and
    lg: "logged (update_ticket_status tid req s now) =
              [(INFO, ''Updating ticket '' @ str_int tid @ '' status to: '' @
                      UpdateTicketStatusRequest.status req),
               (INFO, ''Updated ticket '' @ str_int tid @ '' status from '' @
                      Tickets.status loaded @ '' to '' @ UpdateTicketStatusRequest.status req)]"
    by blast
  have got': "session_get_Tickets (with_prior_status s tid prior) tid =
     Inr (Some (loaded\<lparr>Tickets.status := prior\<rparr>))"
    using got by (rule session_get_Tickets_with_prior_status)
  have cr': "commit_raises (with_prior_status s tid prior) = None"
    and rr': "refresh_raises (with_prior_status s tid prior) = None"
    using cr rr by (simp_all add: with_prior_status_def)
  have "outcome (update_ticket_status tid req (with_prior_status s tid prior) now) = Inr r"
    using update_ticket_status_runs [OF got' valid cr' rr', of now] by (simp add: r)
  then show ?thesis using got r lg by blast
qed

text \<open>Closing ticket 1: the response is the same when its status was \<open>resolved\<close>; the
  log line names the status \<open>open\<close>.\<close>

theorem update_result_hides_prior_status_witness:
  "outcome (update_ticket_status 1 \<lparr>status = ''closed''\<rparr> open_ticket_session example_time) =
     Inr \<lparr>message = ''Ticket status updated successfully'',
          ticket = \<lparr>Tickets.id = Some 1, order_id = 7, issue_description = ''item broken'',
                    status = ''closed'', created_at = example_time 0,
                    updated_at = example_time 0\<rparr>\<rparr> \<and>
   outcome (update_ticket_status 1 \<lparr>status = ''closed''\<rparr>
              (with_prior_status open_ticket_session 1 ''resolved'') example_time) =
     Inr \<lparr>message = ''Ticket status updated successfully'',
          ticket = \<lparr>Tickets.id = Some 1, order_id = 7, issue_description = ''item broken'',
                    status = ''closed'', created_at = example_time 0,
                    updated_at = example_time 0\<rparr>\<rparr> \<and>
   logged (update_ticket_status 1 \<lparr>status = ''closed''\<rparr> open_ticket_session example_time) =
     [(INFO, ''Updating ticket 1 status to: closed''),
      (INFO, ''Updated ticket 1 status from open to closed'')]"
proof -
  have s1: "str_int 1 = ''1''" by code_simp
  have g: "session_get_Tickets open_ticket_session 1 = Inr (Some (example_ticket 1 7 ''open''))"
    by (simp add: session_get_Tickets_def open_ticket_session_def example_session_def
        example_ticket_def)
  show ?thesis
    using update_result_hides_prior_status [OF open_ticket_update_closed, of "''resolved''"]
      open_ticket_update_closed g
    by (auto simp: s1 example_ticket_def)
qed

text \<open>Two stores in which ticket 1 has different statuses: closing the ticket gives the
  same response in both, so the response does not tell the earlier status.\<close>

theorem prior_status_not_in_result_counterexample:
  "session_get_Tickets open_ticket_session 1 = Inr (Some (example_ticket 1 7 ''open'')) \<and>
   session_get_Tickets resolved_ticket_session 1 =
     Inr (Some (example_ticket 1 7 ''resolved'')) \<and>
   Tickets.status (example_ticket 1 7 ''open'') \<noteq>
     Tickets.status (example_ticket 1 7 ''resolved'') \<and>
   outcome (update_ticket_status 1 \<lparr>status = ''closed''\<rparr> open_ticket_session example_time) =
     Inr \<lparr>message = ''Ticket status updated successfully'',
          ticket = \<lparr>Tickets.id = Some 1, order_id = 7, issue_description = ''item broken'',
                    status = ''closed'', created_at = example_time 0,
                    updated_at = example_time 0\<rparr>\<rparr> \<and>
   outcome (update_ticket_status 1 \<lparr>status = ''closed''\<rparr> resolved_ticket_session
              example_time) =
     Inr \<lparr>message = ''Ticket status updated successfully'',
          ticket = \<lparr>Tickets.id = Some 1, order_id = 7, issue_description = ''item broken'',
                    status = ''closed'', created_at = example_time 0,
                    updated_at = example_time 0\<rparr>\<rparr>"
  by (simp add: update_ticket_status_def open_ticket_session_def resolved_ticket_session_def
      example_session_def example_ticket_def session_get_Tickets_def valid_statuses_def
      session_commit_ticket_def session_refresh_ticket_def Let_def)


section \<open>Ticket creation\<close>

lemma create_ticket_order_absent:
  "session_get_Orders s (CreateTicketRequest.order_id req) = Inr None \<Longrightarrow>
   outcome (create_ticket req s now) = Inl (HTTPException 404 ''Order not found'') \<and>
   session_after (create_ticket req s now) = s"
  by (simp add: create_ticket_def Let_def)

text \<open>A created ticket is open, and carries the first clock reading as \<^verbatim>\<open>created_at\<close> and
  the second as \<^verbatim>\<open>updated_at\<close>.\<close>

lemma create_ticket_success:
  assumes "outcome (create_ticket req s now) = Inr r"
  shows "(\<exists>order. session_get_Orders s (CreateTicketRequest.order_id req) = Inr (Some order)) \<and>
         r = \<lparr>message = ''Ticket created successfully'',
              ticket = \<lparr>Tickets.id = Some (next_ticket_id (tickets_table s)),
                        order_id = CreateTicketRequest.order_id req,
                        issue_description = CreateTicketRequest.issue_description req,
                        status = ''open'', created_at = now 0, updated_at = now 1\<rparr>\<rparr> \<and>
         session_after (create_ticket req s now) =
           s\<lparr>tickets_table := tickets_table s @ [ticket r]\<rparr>"
proof (cases "session_get_Orders s (CreateTicketRequest.order_id req)")
  case (Inl e)
  with assms show ?thesis by (simp add: create_ticket_def Let_def)
next
  case (Inr found)
  show ?thesis
  proof (cases found)
    case None
    with Inr assms show ?thesis by (simp add: create_ticket_def Let_def)
  next
    case (Some order)
    let ?row = "\<lparr>Tickets.id = Some (next_ticket_id (tickets_table s)),
                 order_id = CreateTicketRequest.order_id req,
                 issue_description = CreateTicketRequest.issue_description req,
                 status = ''open'', created_at = now 0, updated_at = now 1\<rparr>"
    let ?s1 = "s\<lparr>tickets_table := tickets_table s @ [?row]\<rparr>"
    have got: "session_get_Orders s (CreateTicketRequest.order_id req) = Inr (Some order)"
      using Inr Some by simp
    have cr: "commit_raises s = None"
      using assms got
      by (auto simp: create_ticket_def Let_def session_commit_new_ticket_def
          split: option.splits)
    have commit: "session_commit_new_ticket s
        \<lparr>Tickets.id = None, order_id = CreateTicketRequest.order_id req,
         issue_description = CreateTicketRequest.issue_description req,
         status = ''open'', created_at = now 0, updated_at = now 1\<rparr> = Inr (?s1, ?row)"
      using cr by (simp add: session_commit_new_ticket_def Let_def)
    have rr: "refresh_raises s = None"
      using assms got commit
      by (auto simp: create_ticket_def Let_def session_refresh_ticket_def split: option.splits)
    have "find (\<lambda>r. Tickets.id r = Tickets.id ?row) (tickets_table s @ [?row]) = Some ?row"
      by (rule find_fresh_row) simp
    then have refresh: "session_refresh_ticket ?s1 ?row = Inr ?row"
      using rr by (simp add: session_refresh_ticket_def)
    show ?thesis
      using assms got commit refresh by (auto simp: create_ticket_def Let_def)
  qed
qed

text \<open>
  Claim C3, at a concrete request. A ticket for the existing order 7 is created open, but
  with two clock readings: on a clock that advances between the two calls of
  \<^verbatim>\<open>datetime.now()\<close> the returned ticket has \<^verbatim>\<open>created_at\<close> different from
  \<^verbatim>\<open>updated_at\<close>.
\<close>

theorem create_ticket_reads_clock_twice:
  "session_get_Orders (example_session []) 7 = Inr (Some example_order) \<and>
   outcome (create_ticket \<lparr>order_id = 7, issue_description = ''item broken''\<rparr>
              (example_session []) example_time) =
     Inr \<lparr>message = ''Ticket created successfully'',
          ticket = \<lparr>Tickets.id = Some 1, order_id = 7, issue_description = ''item broken'',
                    status = ''open'', created_at = example_time 0,
                    updated_at = example_time 1\<rparr>\<rparr> \<and>
   example_time 0 \<noteq> example_time 1"
  by (simp add: create_ticket_def example_session_def example_order_def session_get_Orders_def
      session_commit_new_ticket_def session_refresh_ticket_def next_ticket_id_def Let_def
      example_time_def)

end
